theory Spec2Isabelle
  imports Complex_Main
begin

section \<open>The notebook and what it calls\<close>

text \<open>
  The repository is one Jupyter notebook, \<^verbatim>\<open>feature-selection-templates.ipynb\<close>, of four
  code cells. Each cell loads the same CSV file, slices it into the attribute matrix
  \<^verbatim>\<open>X = array[:,0:8]\<close> and the label vector \<^verbatim>\<open>Y = array[:,8]\<close>, hands them to one estimator
  of scikit-learn and prints attributes of the fitted estimator.

  The notebook's own statements are embedded here one by one. The routines of pandas and
  scikit-learn that it calls are not part of the repository: they are the fields of a
  record \<open>libs\<close> that every cell takes as a parameter, and every theorem below holds for
  all values of those fields. The state of the Python kernel that a cell can change or
  observe is passed explicitly.

  A library routine is taken to be a function of its arguments and, where it may draw
  random numbers, of numpy's global random state; it returns a new object and leaves the
  arrays it is given as they are. What a routine computes (how many scores, which
  columns, in which order, for which arguments it raises) is a property of the library,
  not of the notebook, and is not stated here.
\<close>

subsection \<open>Errors\<close>

text \<open>
  \<open>IndexError\<close> is what numpy raises for \<^verbatim>\<open>array[:,8]\<close> on an array with fewer than nine
  columns; \<open>Raised msg\<close> stands for any exception raised inside a library routine.
\<close>

datatype error = IndexError | Raised string

subsection \<open>Two-dimensional arrays and basic slicing\<close>

text \<open>
  A two-dimensional numpy array of shape \<open>(length (rows a), ncols a)\<close>. The array is
  rectangular: every row has \<open>ncols a\<close> entries (\<open>rectangular\<close>). The number of columns is
  kept apart from the rows because an array without rows still has a column count, and
  \<^verbatim>\<open>array[:,8]\<close> is checked against it.
\<close>

record 'v ndarray =
  ncols :: nat
  rows :: "'v list list"

definition rectangular :: "'v ndarray \<Rightarrow> bool" where
  "rectangular a = list_all (\<lambda>r. length r = ncols a) (rows a)"

text \<open>Python's \<^verbatim>\<open>xs[lo:hi]\<close> for bounds that are not negative: out-of-range bounds are clipped.\<close>

definition slice :: "nat \<Rightarrow> nat \<Rightarrow> 'a list \<Rightarrow> 'a list" where
  "slice lo hi xs = take (hi - lo) (drop lo xs)"

text \<open>\<^verbatim>\<open>a[:,lo:hi]\<close>: the same slice of every row; never raises.\<close>

definition slice_cols :: "'v ndarray \<Rightarrow> nat \<Rightarrow> nat \<Rightarrow> 'v ndarray" where
  "slice_cols a lo hi = \<lparr>ncols = min hi (ncols a) - lo, rows = map (slice lo hi) (rows a)\<rparr>"

text \<open>\<^verbatim>\<open>a[lo:hi,:]\<close>: a slice of the rows; never raises.\<close>

definition slice_rows :: "'v ndarray \<Rightarrow> nat \<Rightarrow> nat \<Rightarrow> 'v ndarray" where
  "slice_rows a lo hi = \<lparr>ncols = ncols a, rows = slice lo hi (rows a)\<rparr>"

text \<open>\<^verbatim>\<open>a[:,j]\<close>: column \<open>j\<close> as a one-dimensional array; an index past the last column raises.\<close>

definition column :: "'v ndarray \<Rightarrow> nat \<Rightarrow> error + 'v list" where
  "column a j = (if j < ncols a then Inr (map (\<lambda>r. r ! j) (rows a)) else Inl IndexError)"

subsection \<open>Objects of pandas and scikit-learn\<close>

text \<open>
  Only the attributes and methods that the notebook touches are modelled. A method is a
  function-valued field of the object that carries it.
\<close>

record 'v dataframe =
  columns :: "string list"
  values_df :: "'v ndarray"    \<comment> \<open>\<^verbatim>\<open>dataframe.values\<close>\<close>

text \<open>Unfitted estimators are the constructor calls with their arguments.\<close>

record 'v SelectKBest =
  score_func :: "'v ndarray \<Rightarrow> 'v list \<Rightarrow> error + 'v list \<times> 'v list"
  k_best :: int                \<comment> \<open>the keyword argument \<^verbatim>\<open>k\<close>\<close>

datatype classifier = LogisticRegression | ExtraTreesClassifier

record RFE =
  estimator :: classifier
  n_features_to_select :: int

record PCA =
  n_components :: int

text \<open>Fitted estimators, as \<^verbatim>\<open>fit\<close> returns them.\<close>

record 'v SelectKBest_fitted =
  scores' :: "'v list"
  transform :: "'v ndarray \<Rightarrow> error + 'v ndarray"

record RFE_fitted =
  n_features' :: int
  support' :: "bool list"
  ranking' :: "int list"

record 'v PCA_fitted =
  explained_variance_ratio' :: "'v list"
  components' :: "'v ndarray"
  pca_transform :: "'v ndarray \<Rightarrow> error + 'v ndarray"
    \<comment> \<open>the method \<^verbatim>\<open>transform\<close> of a fitted PCA; the notebook never calls it\<close>

record 'v ExtraTrees_fitted =
  feature_importances' :: "'v list"

text \<open>
  The library routines. \<open>'v\<close> is the type of the array entries (float64 in the
  notebook; no statement of the notebook computes with them). \<open>'g\<close> is the state of
  numpy's global random generator, which an estimator built without \<^verbatim>\<open>random_state\<close>
  draws from: every \<^verbatim>\<open>fit\<close> takes it and returns it advanced.
\<close>

record ('v, 'g) libs =
  read_csv :: "string \<Rightarrow> string list \<Rightarrow> error + 'v dataframe"
  chi2 :: "'v ndarray \<Rightarrow> 'v list \<Rightarrow> error + 'v list \<times> 'v list"
  SelectKBest_fit ::
    "'v SelectKBest \<Rightarrow> 'v ndarray \<Rightarrow> 'v list \<Rightarrow> 'g \<Rightarrow> (error + 'v SelectKBest_fitted) \<times> 'g"
  RFE_fit :: "RFE \<Rightarrow> 'v ndarray \<Rightarrow> 'v list \<Rightarrow> 'g \<Rightarrow> (error + RFE_fitted) \<times> 'g"
  PCA_fit :: "PCA \<Rightarrow> 'v ndarray \<Rightarrow> 'g \<Rightarrow> (error + 'v PCA_fitted) \<times> 'g"
  classifier_fit ::
    "classifier \<Rightarrow> 'v ndarray \<Rightarrow> 'v list \<Rightarrow> 'g \<Rightarrow> (error + 'v ExtraTrees_fitted) \<times> 'g"

subsection \<open>The kernel\<close>

text \<open>
  What \<^verbatim>\<open>print\<close> is given: a string, an integer, or a numpy array. An array is written
  with the print precision that is in force when \<^verbatim>\<open>print\<close> runs, so a \<open>Print\<close> event keeps
  that precision beside the values.
\<close>

datatype 'v pyval =
    StrVal string
  | IntVal int
  | FloatArray "'v list"
  | FloatMatrix "'v ndarray"
  | BoolArray "bool list"
  | IntArray "int list"

datatype 'v event =
    Fetch string "string list"     \<comment> \<open>\<^verbatim>\<open>read_csv(url, names=names)\<close> reads the remote file\<close>
  | Print nat "'v pyval list"      \<comment> \<open>one \<^verbatim>\<open>print\<close> call: precision in force, arguments\<close>

text \<open>
  The state of the kernel that outlives a statement: numpy's print precision (8 in a
  fresh kernel), numpy's global random state, and the effects so far, oldest first.
  The names a cell binds are not part of it: every cell binds each name before it
  reads it, so they are \<open>let\<close>-bound in the cell.
\<close>

record ('v, 'g) kernel =
  precision :: nat
  np_random :: 'g
  effects :: "'v event list"

definition fresh_kernel :: "'g \<Rightarrow> ('v, 'g) kernel" where
  "fresh_kernel g = \<lparr>precision = 8, np_random = g, effects = []\<rparr>"

text \<open>A statement runs on a kernel and returns a value or raises, with the kernel it leaves.\<close>

type_synonym ('v, 'g, 'a) py = "('v, 'g) kernel \<Rightarrow> (error + 'a) \<times> ('v, 'g) kernel"

definition seq :: "('v, 'g, 'a) py \<Rightarrow> ('a \<Rightarrow> ('v, 'g, 'b) py) \<Rightarrow> ('v, 'g, 'b) py" where
  "seq m f = (\<lambda>s. case m s of (Inl e, s') \<Rightarrow> (Inl e, s') | (Inr x, s') \<Rightarrow> f x s')"

definition ret :: "'a \<Rightarrow> ('v, 'g, 'a) py" where
  "ret x = (\<lambda>s. (Inr x, s))"

text \<open>An expression that may raise and touches no state.\<close>

definition pure :: "error + 'a \<Rightarrow> ('v, 'g, 'a) py" where
  "pure r = (\<lambda>s. (r, s))"

text \<open>A library routine that may draw from the global random state.\<close>

definition draw :: "('g \<Rightarrow> (error + 'a) \<times> 'g) \<Rightarrow> ('v, 'g, 'a) py" where
  "draw f = (\<lambda>s. case f (np_random s) of (r, g') \<Rightarrow> (r, s\<lparr>np_random := g'\<rparr>))"

definition fetch :: "('v, 'g) libs \<Rightarrow> string \<Rightarrow> string list \<Rightarrow> ('v, 'g, 'v dataframe) py" where
  "fetch L u ns = (\<lambda>s. (read_csv L u ns, s\<lparr>effects := effects s @ [Fetch u ns]\<rparr>))"

definition set_printoptions :: "nat \<Rightarrow> ('v, 'g, unit) py" where
  "set_printoptions p = (\<lambda>s. (Inr (), s\<lparr>precision := p\<rparr>))"

definition print :: "'v pyval list \<Rightarrow> ('v, 'g, unit) py" where
  "print vs = (\<lambda>s. (Inr (), s\<lparr>effects := effects s @ [Print (precision s) vs]\<rparr>))"

subsection \<open>The four cells\<close>

definition url :: string where
  "url = ''https://archive.ics.uci.edu/ml/machine-learning-databases/pima-indians-diabetes/pima-indians-diabetes.data''"

definition names :: "string list" where
  "names = [''preg'', ''plas'', ''pres'', ''skin'', ''test'', ''mass'', ''pedi'', ''age'', ''class'']"

text \<open>
  Cell 1, univariate selection:
  \<^verbatim>\<open>
  dataframe = pandas.read_csv(url, names=names)
  array = dataframe.values
  X = array[:,0:8]
  Y = array[:,8]
  test = SelectKBest(score_func=chi2, k=4)
  fit = test.fit(X, Y)
  numpy.set_printoptions(precision=3)
  print(fit.scores_)
  features = fit.transform(X)
  print(features[0:5,:])
  \<close>
  The value of a cell is the fitted estimator it leaves bound.
\<close>

definition cell1 :: "('v, 'g) libs \<Rightarrow> ('v, 'g, 'v SelectKBest_fitted) py" where
  "cell1 L =
     seq (fetch L url names) (\<lambda>dataframe.
     let array = values_df dataframe;
         X = slice_cols array 0 8
     in
     seq (pure (column array 8)) (\<lambda>Y.
     let test = \<lparr>score_func = chi2 L, k_best = 4\<rparr> in
     seq (draw (SelectKBest_fit L test X Y)) (\<lambda>fit.
     seq (set_printoptions 3) (\<lambda>_.
     seq (print [FloatArray (scores' fit)]) (\<lambda>_.
     seq (pure (transform fit X)) (\<lambda>features.
     seq (print [FloatMatrix (slice_rows features 0 5)]) (\<lambda>_.
     ret fit)))))))"

text \<open>
  Cell 2, recursive feature elimination:
  \<^verbatim>\<open>
  dataframe = read_csv(url, names=names)
  array = dataframe.values
  X = array[:,0:8]
  Y = array[:,8]
  model = LogisticRegression()
  rfe = RFE(model, 3)
  fit = rfe.fit(X, Y)
  print("Num Features: %d", fit.n_features_)
  print("Selected Features: %s", fit.support_)
  print("Feature Ranking: %s",  fit.ranking_)
  \<close>
\<close>

definition cell2 :: "('v, 'g) libs \<Rightarrow> ('v, 'g, RFE_fitted) py" where
  "cell2 L =
     seq (fetch L url names) (\<lambda>dataframe.
     let array = values_df dataframe;
         X = slice_cols array 0 8
     in
     seq (pure (column array 8)) (\<lambda>Y.
     let model = LogisticRegression;
         rfe = \<lparr>estimator = model, n_features_to_select = 3\<rparr>
     in
     seq (draw (RFE_fit L rfe X Y)) (\<lambda>fit.
     seq (print [StrVal ''Num Features: %d'', IntVal (n_features' fit)]) (\<lambda>_.
     seq (print [StrVal ''Selected Features: %s'', BoolArray (support' fit)]) (\<lambda>_.
     seq (print [StrVal ''Feature Ranking: %s'', IntArray (ranking' fit)]) (\<lambda>_.
     ret fit))))))"

text \<open>
  Cell 3, principal component analysis:
  \<^verbatim>\<open>
  dataframe = read_csv(url, names=names)
  array = dataframe.values
  X = array[:,0:8]
  Y = array[:,8]
  pca = PCA(n_components=3)
  fit = pca.fit(X)
  print("Explained Variance: %s",fit.explained_variance_ratio_)
  print(fit.components_)
  \<close>
\<close>

definition cell3 :: "('v, 'g) libs \<Rightarrow> ('v, 'g, 'v PCA_fitted) py" where
  "cell3 L =
     seq (fetch L url names) (\<lambda>dataframe.
     let array = values_df dataframe;
         X = slice_cols array 0 8
     in
     seq (pure (column array 8)) (\<lambda>Y.
     let pca = \<lparr>n_components = 3\<rparr> in
     seq (draw (PCA_fit L pca X)) (\<lambda>fit.
     seq (print [StrVal ''Explained Variance: %s'', FloatArray (explained_variance_ratio' fit)]) (\<lambda>_.
     seq (print [FloatMatrix (components' fit)]) (\<lambda>_.
     ret fit)))))"

text \<open>
  Cell 4, feature importance:
  \<^verbatim>\<open>
  dataframe = read_csv(url, names=names)
  array = dataframe.values
  X = array[:,0:8]
  Y = array[:,8]
  model = ExtraTreesClassifier()
  model.fit(X, Y)
  print(model.feature_importances_)
  \<close>
  \<^verbatim>\<open>model.fit\<close> fits the estimator in place; the model returns the fitted estimator and
  binds \<open>model\<close> to it.
\<close>

definition cell4 :: "('v, 'g) libs \<Rightarrow> ('v, 'g, 'v ExtraTrees_fitted) py" where
  "cell4 L =
     seq (fetch L url names) (\<lambda>dataframe.
     let array = values_df dataframe;
         X = slice_cols array 0 8
     in
     seq (pure (column array 8)) (\<lambda>Y.
     seq (draw (classifier_fit L ExtraTreesClassifier X Y)) (\<lambda>model.
     seq (print [FloatArray (feature_importances' model)]) (\<lambda>_.
     ret model))))"

text \<open>The cells in the order of the document; an exception stops the run.\<close>

definition notebook :: "('v, 'g) libs \<Rightarrow> ('v, 'g, unit) py" where
  "notebook L =
     seq (cell1 L) (\<lambda>_.
     seq (cell2 L) (\<lambda>_.
     seq (cell3 L) (\<lambda>_.
     seq (cell4 L) (\<lambda>_.
     ret ()))))"

subsection \<open>Reading the effects\<close>

text \<open>The events a statement appends to the kernel's effects.\<close>

definition report :: "('v, 'g, 'a) py \<Rightarrow> ('v, 'g) kernel \<Rightarrow> 'v event list" where
  "report m s = drop (length (effects s)) (effects (snd (m s)))"

fun is_fetch :: "'v event \<Rightarrow> bool" where
  "is_fetch (Fetch u ns) = True"
| "is_fetch (Print p vs) = False"

text \<open>How many times the remote file is read.\<close>

definition reads :: "'v event list \<Rightarrow> nat" where
  "reads es = length (filter is_fetch es)"

text \<open>A \<^verbatim>\<open>print\<close> that ran with precision \<open>p\<close> in force (a read prints nothing).\<close>

fun printed_at :: "nat \<Rightarrow> 'v event \<Rightarrow> bool" where
  "printed_at p (Fetch u ns) = True"
| "printed_at p (Print q vs) = (q = p)"

definition only_prints_at :: "nat \<Rightarrow> 'v event list \<Rightarrow> bool" where
  "only_prints_at p es = list_all (\<lambda>e. \<not> is_fetch e \<and> printed_at p e) es"

text \<open>The arguments of the \<^verbatim>\<open>print\<close> calls, in order, whatever the precision.\<close>

fun printed :: "'v event list \<Rightarrow> 'v pyval list list" where
  "printed [] = []"
| "printed (Fetch u ns # es) = printed es"
| "printed (Print p vs # es) = vs # printed es"






text \<open>A statement keeps the effects it found, and what it appends starts with its only read.\<close>

definition reads_once_first :: "('v, 'g, 'a) py \<Rightarrow> ('v, 'g) kernel \<Rightarrow> bool" where
  "reads_once_first m s =
     (effects (snd (m s)) = effects s @ report m s \<and>
      take 1 (report m s) = [Fetch url names] \<and>
      reads (report m s) = 1)"

text \<open>A statement keeps the print precision it found and prints with it.\<close>

definition prints_as_found :: "('v, 'g, 'a) py \<Rightarrow> ('v, 'g) kernel \<Rightarrow> bool" where
  "prints_as_found m s =
     (list_all (printed_at (precision s)) (report m s) \<and> precision (snd (m s)) = precision s)"

fun prints_value :: "'v pyval \<Rightarrow> 'v event \<Rightarrow> bool" where
  "prints_value v (Fetch u ns) = False"
| "prints_value v (Print p vs) = (v \<in> set vs)"

text \<open>
  The report \<open>out\<close> includes the sample of the transformed matrix: some \<^verbatim>\<open>print\<close> was given
  the first 5 rows of what the method \<open>tr\<close> makes of \<open>X\<close>.
\<close>

definition report_has_sample ::
  "('v ndarray \<Rightarrow> error + 'v ndarray) \<Rightarrow> 'v ndarray \<Rightarrow> 'v event list \<Rightarrow> bool" where
  "report_has_sample tr X out =
     (case tr X of
        Inl e \<Rightarrow> False
      | Inr features \<Rightarrow> list_ex (prints_value (FloatMatrix (slice_rows features 0 5))) out)"

text \<open>
  What every cell holds after its first four statements: the attribute matrix
  \<^verbatim>\<open>X = array[:,0:8]\<close> and the label vector \<^verbatim>\<open>Y = array[:,8]\<close> of the array as \<^verbatim>\<open>read_csv\<close>
  returned it, or the exception of \<^verbatim>\<open>read_csv\<close> or of \<^verbatim>\<open>array[:,8]\<close>.
\<close>

definition dataset :: "('v, 'g) libs \<Rightarrow> error + 'v ndarray \<times> 'v list" where
  "dataset L =
     (case read_csv L url names of
        Inl e \<Rightarrow> Inl e
      | Inr dataframe \<Rightarrow>
          (let array = values_df dataframe in
           case column array 8 of
             Inl e \<Rightarrow> Inl e
           | Inr Y \<Rightarrow> Inr (slice_cols array 0 8, Y)))"


text \<open>
  The report of each cell when it completes, as its \<^verbatim>\<open>print\<close> statements write it: \<open>p\<close>
  is the print precision in force, the other arguments are what the cell has bound.
\<close>

definition univariate_report :: "'v SelectKBest_fitted \<Rightarrow> 'v ndarray \<Rightarrow> 'v event list" where
  "univariate_report fit features =
     [Fetch url names,
      Print 3 [FloatArray (scores' fit)],
      Print 3 [FloatMatrix (slice_rows features 0 5)]]"

definition elimination_report :: "nat \<Rightarrow> RFE_fitted \<Rightarrow> 'v event list" where
  "elimination_report p fit =
     [Fetch url names,
      Print p [StrVal ''Num Features: %d'', IntVal (n_features' fit)],
      Print p [StrVal ''Selected Features: %s'', BoolArray (support' fit)],
      Print p [StrVal ''Feature Ranking: %s'', IntArray (ranking' fit)]]"

definition projection_report :: "nat \<Rightarrow> 'v PCA_fitted \<Rightarrow> 'v event list" where
  "projection_report p fit =
     [Fetch url names,
      Print p [StrVal ''Explained Variance: %s'', FloatArray (explained_variance_ratio' fit)],
      Print p [FloatMatrix (components' fit)]]"

definition importance_report :: "nat \<Rightarrow> 'v ExtraTrees_fitted \<Rightarrow> 'v event list" where
  "importance_report p model = [Fetch url names, Print p [FloatArray (feature_importances' model)]]"

subsection \<open>A stand-in for the libraries\<close>

text \<open>
  To evaluate the cells on a concrete input, the libraries are replaced by small
  routines over the reals. They are not scikit-learn, and no theorem about the cells
  depends on them. \<^verbatim>\<open>read_csv\<close> answers with an array of six rows, each of eight attributes
  that are not negative and a label 0 or 1.
  \<^item> \<open>chi2\<close> and the choice of the \<open>k\<close> best columns are computed as scikit-learn defines
    them: the chi-squared statistic of every column against the classes, an exception
    for a negative entry, the \<open>k\<close> highest scores with ties going to the later column.
    The p-values, which no statement of the notebook reads, are left empty, and \<open>k\<close> is
    not validated.
  \<^item> The three numerical fits are replaced by exact computations of the same shape.
    Recursive elimination ranks the columns once, by the absolute covariance with the
    labels, where the real one refits a logistic regression after every elimination.
    The projection takes the coordinate axes of highest variance for components, where
    the real one diagonalises the covariance matrix; its \<^verbatim>\<open>transform\<close> subtracts the column
    means and multiplies with the components, as the real one does. The importances are
    the absolute covariances with the labels, weighted by the random state and
    normalised.
  \<^item> Only the extra-trees fit draws from the random state; here the state is a counter.
\<close>

definition sample_array :: "real ndarray" where
  "sample_array = \<lparr>ncols = 9, rows =
     [[6, 148, 72, 35, 0, 33.6, 0.627, 50, 1],
      [1, 85, 66, 29, 0, 26.6, 0.351, 31, 0],
      [8, 183, 64, 0, 0, 23.3, 0.672, 32, 1],
      [1, 89, 66, 23, 94, 28.1, 0.167, 21, 0],
      [0, 137, 40, 35, 168, 43.1, 2.288, 33, 1],
      [5, 116, 74, 0, 0, 25.6, 0.201, 30, 0]]\<rparr>"

text \<open>The same attributes with every label changed.\<close>

definition relabelled_array :: "real ndarray" where
  "relabelled_array = \<lparr>ncols = 9, rows =
     [[6, 148, 72, 35, 0, 33.6, 0.627, 50, 0],
      [1, 85, 66, 29, 0, 26.6, 0.351, 31, 1],
      [8, 183, 64, 0, 0, 23.3, 0.672, 32, 0],
      [1, 89, 66, 23, 94, 28.1, 0.167, 21, 1],
      [0, 137, 40, 35, 168, 43.1, 2.288, 33, 0],
      [5, 116, 74, 0, 0, 25.6, 0.201, 30, 1]]\<rparr>"

definition sample_X :: "real ndarray" where
  "sample_X = slice_cols sample_array 0 8"

definition sample_Y :: "real list" where
  "sample_Y = [1, 0, 1, 0, 1, 0]"

definition columns_of :: "'v ndarray \<Rightarrow> 'v list list" where
  "columns_of a = map (\<lambda>j. map (\<lambda>r. r ! j) (rows a)) [0..<ncols a]"

definition take_columns :: "nat list \<Rightarrow> 'v ndarray \<Rightarrow> 'v ndarray" where
  "take_columns js a = \<lparr>ncols = length js, rows = map (\<lambda>r. map (\<lambda>j. r ! j) js) (rows a)\<rparr>"

definition mean :: "real list \<Rightarrow> real" where
  "mean xs = sum_list xs / real (length xs)"

definition variance :: "real list \<Rightarrow> real" where
  "variance xs = (\<Sum>x \<leftarrow> xs. (x - mean xs)\<^sup>2) / real (length xs - 1)"

definition label_weight :: "real list \<Rightarrow> real list \<Rightarrow> real" where
  "label_weight y x = \<bar>\<Sum>(a, b) \<leftarrow> zip x y. (a - mean x) * (b - mean y)\<bar>"

text \<open>The positions of a list of scores, from the lowest score to the highest (stable).\<close>

definition argsort :: "real list \<Rightarrow> nat list" where
  "argsort scores = map snd (sort_key fst (zip scores [0..<length scores]))"

text \<open>The chi-squared statistic of a column \<open>x\<close> of non-negative entries against the labels.\<close>

definition chi2_score :: "real list \<Rightarrow> real list \<Rightarrow> real" where
  "chi2_score y x =
     (\<Sum>c \<leftarrow> sort (remdups y).
        let observed = (\<Sum>(v, l) \<leftarrow> zip x y. if l = c then v else 0);
            expected = real (count_list y c) / real (length y) * sum_list x
        in (observed - expected)\<^sup>2 / expected)"

definition stand_in_chi2 :: "real ndarray \<Rightarrow> real list \<Rightarrow> error + real list \<times> real list" where
  "stand_in_chi2 X Y =
     (if list_ex (list_ex (\<lambda>v. v < 0)) (rows X)
      then Inl (Raised ''Input X must be non-negative.'')
      else Inr (map (chi2_score Y) (columns_of X), []))"

definition k_highest :: "nat \<Rightarrow> real list \<Rightarrow> nat list" where
  "k_highest k scores = sort (drop (length scores - k) (argsort scores))"

definition kbest_transform :: "nat \<Rightarrow> nat list \<Rightarrow> real ndarray \<Rightarrow> error + real ndarray" where
  "kbest_transform n js a =
     (if ncols a = n then Inr (take_columns js a)
      else Inl (Raised ''X has a different shape than during fitting.''))"

definition fitted_kbest :: "nat \<Rightarrow> nat \<Rightarrow> real list \<Rightarrow> real SelectKBest_fitted" where
  "fitted_kbest k n scores = \<lparr>scores' = scores, transform = kbest_transform n (k_highest k scores)\<rparr>"

definition elimination_ranking :: "nat \<Rightarrow> real list \<Rightarrow> int list" where
  "elimination_ranking n weights =
     (let best_first = rev (argsort weights) in
      map (\<lambda>j. let position = length (takeWhile (\<lambda>i. i \<noteq> j) best_first)
                in if position < n then 1 else int (position - n) + 2)
        [0..<length weights])"

definition fitted_rfe :: "nat \<Rightarrow> real ndarray \<Rightarrow> real list \<Rightarrow> RFE_fitted" where
  "fitted_rfe n X Y =
     (let ranking = elimination_ranking n (map (label_weight Y) (columns_of X)) in
      \<lparr>n_features' = int (count_list ranking 1),
       support' = map (\<lambda>r. r = 1) ranking,
       ranking' = ranking\<rparr>)"

definition unit_vector :: "nat \<Rightarrow> nat \<Rightarrow> real list" where
  "unit_vector n j = map (\<lambda>i. if i = j then 1 else 0) [0..<n]"

text \<open>\<^verbatim>\<open>(a - mean_) @ components_.T\<close>, with the column means \<open>m\<close> of the fitted array.\<close>

definition project :: "real ndarray \<Rightarrow> real list \<Rightarrow> real ndarray \<Rightarrow> error + real ndarray" where
  "project c m a =
     (if ncols a = ncols c
      then Inr \<lparr>ncols = length (rows c),
                rows = map (\<lambda>r. map (\<lambda>w. \<Sum>(wi, xi) \<leftarrow> zip w (map2 (-) r m). wi * xi) (rows c))
                         (rows a)\<rparr>
      else Inl (Raised ''X has a different number of features than during fitting.''))"

definition fitted_pca :: "nat \<Rightarrow> real ndarray \<Rightarrow> real PCA_fitted" where
  "fitted_pca c X =
     (let variances = map variance (columns_of X);
          axes = take c (rev (argsort variances));
          components = \<lparr>ncols = ncols X, rows = map (unit_vector (ncols X)) axes\<rparr>
      in \<lparr>explained_variance_ratio' = map (\<lambda>j. variances ! j / sum_list variances) axes,
          components' = components,
          pca_transform = project components (map mean (columns_of X))\<rparr>)"

definition fitted_trees :: "nat \<Rightarrow> real ndarray \<Rightarrow> real list \<Rightarrow> real ExtraTrees_fitted" where
  "fitted_trees g X Y =
     (let weights = map (\<lambda>(j, w). real (1 + (j + g) mod 3) * w)
                      (enumerate 0 (map (label_weight Y) (columns_of X)))
      in \<lparr>feature_importances' = map (\<lambda>w. w / sum_list weights) weights\<rparr>)"

definition stand_in :: "(real, nat) libs" where
  "stand_in = \<lparr>
     read_csv = (\<lambda>u ns. Inr \<lparr>columns = ns, values_df = sample_array\<rparr>),
     chi2 = stand_in_chi2,
     SelectKBest_fit = (\<lambda>est X Y g.
       case score_func est X Y of
         Inl e \<Rightarrow> (Inl e, g)
       | Inr (scores, pvalues) \<Rightarrow> (Inr (fitted_kbest (nat (k_best est)) (ncols X) scores), g)),
     RFE_fit = (\<lambda>est X Y g. (Inr (fitted_rfe (nat (n_features_to_select est)) X Y), g)),
     PCA_fit = (\<lambda>est X g. (Inr (fitted_pca (nat (n_components est)) X), g)),
     classifier_fit = (\<lambda>c X Y g. (Inr (fitted_trees g X Y), Suc g))\<rparr>"

definition relabelled :: "(real, nat) libs" where
  "relabelled = stand_in\<lparr>read_csv := (\<lambda>u ns. Inr \<lparr>columns = ns, values_df = relabelled_array\<rparr>)\<rparr>"

text \<open>What the stand-in fits on the sample.\<close>

definition sample_scores :: "real list" where
  "sample_scores = map (chi2_score sample_Y) (columns_of sample_X)"

definition sample_kbest :: "real SelectKBest_fitted" where
  "sample_kbest = fitted_kbest 4 8 sample_scores"

definition sample_rfe :: RFE_fitted where
  "sample_rfe = fitted_rfe 3 sample_X sample_Y"

definition sample_pca :: "real PCA_fitted" where
  "sample_pca = fitted_pca 3 sample_X"

definition sample_trees :: "nat \<Rightarrow> real ExtraTrees_fitted" where
  "sample_trees g = fitted_trees g sample_X sample_Y"

definition sample_features :: "real ndarray" where
  "sample_features = take_columns (k_highest 4 sample_scores) sample_X"


text \<open>The kernel after cell 1 has run on a fresh one, and after cells 1 and 2.\<close>

definition after_cell1 :: "(real, nat) kernel" where
  "after_cell1 = snd (cell1 stand_in (fresh_kernel 0))"

definition after_cell2 :: "(real, nat) kernel" where
  "after_cell2 = snd (cell2 stand_in after_cell1)"

section \<open>Properties\<close>

subsection \<open>Slicing\<close>

lemma length_slice: "length (slice lo hi xs) = min hi (length xs) - lo"
  by (simp add: slice_def)

lemma rectangular_slice_cols: "rectangular a \<Longrightarrow> rectangular (slice_cols a lo hi)"
  by (simp add: rectangular_def slice_cols_def length_slice list_all_iff)

lemma rectangular_slice_rows: "rectangular a \<Longrightarrow> rectangular (slice_rows a lo hi)"
  by (auto simp add: rectangular_def slice_rows_def slice_def list_all_iff
      dest: in_set_takeD in_set_dropD)

subsection \<open>Determined statements\<close>















lemma report_eq: "effects (snd (m s)) = effects s @ out \<Longrightarrow> report m s = out"
  by (simp add: report_def)


subsection \<open>What each cell appends\<close>

lemmas run_defs = seq_def ret_def pure_def draw_def fetch_def set_printoptions_def print_def
  column_def

lemma only_prints_at_simps [simp]:
  "only_prints_at p []"
  "only_prints_at p (Print q vs # es) = (q = p \<and> only_prints_at p es)"
  "only_prints_at p (Fetch u ns # es) = False"
  by (simp_all add: only_prints_at_def)

lemma only_prints_atD:
  "only_prints_at p es \<Longrightarrow> list_all (printed_at p) es \<and> reads es = 0"
  by (induction es) (auto simp add: only_prints_at_def reads_def)

lemma cell1_run:
  "\<exists>out. effects (snd (cell1 L s)) = effects s @ Fetch url names # out \<and> only_prints_at 3 out
     \<and> (\<forall>f. fst (cell1 L s) = Inr f \<longrightarrow> precision (snd (cell1 L s)) = 3)"
  by (auto simp add: cell1_def run_defs Let_def split: sum.splits prod.splits)

lemma cell2_run:
  "\<exists>out. effects (snd (cell2 L s)) = effects s @ Fetch url names # out
     \<and> only_prints_at (precision s) out \<and> precision (snd (cell2 L s)) = precision s"
  by (auto simp add: cell2_def run_defs Let_def split: sum.splits prod.splits)

lemma cell3_run:
  "\<exists>out. effects (snd (cell3 L s)) = effects s @ Fetch url names # out
     \<and> only_prints_at (precision s) out \<and> precision (snd (cell3 L s)) = precision s"
  by (auto simp add: cell3_def run_defs Let_def split: sum.splits prod.splits)

lemma cell4_run:
  "\<exists>out. effects (snd (cell4 L s)) = effects s @ Fetch url names # out
     \<and> only_prints_at (precision s) out \<and> precision (snd (cell4 L s)) = precision s"
  by (auto simp add: cell4_def run_defs Let_def split: sum.splits prod.splits)

text \<open>
  A cell that raises: in cells 2 to 4 every \<^verbatim>\<open>print\<close> comes after the last statement that
  can raise; in cell 1 the scores are printed before \<^verbatim>\<open>transform\<close> runs.
\<close>

lemma failed_cell_prints_nothing:
  "fst (cell2 L s) = Inl e \<Longrightarrow> printed (report (cell2 L) s) = []"
  "fst (cell3 L s) = Inl e \<Longrightarrow> printed (report (cell3 L) s) = []"
  "fst (cell4 L s) = Inl e \<Longrightarrow> printed (report (cell4 L) s) = []"
  by (auto simp add: cell2_def cell3_def cell4_def run_defs Let_def report_def
      split: sum.splits prod.splits if_splits)

lemma failed_cell1_prints:
  "fst (cell1 L s) = Inl e \<Longrightarrow>
     printed (report (cell1 L) s) = [] \<or> (\<exists>sc. printed (report (cell1 L) s) = [[FloatArray sc]])"
  by (auto simp add: cell1_def run_defs Let_def report_def
      split: sum.splits prod.splits if_splits)

lemma reads_once_firstI:
  assumes "effects (snd (m s)) = effects s @ Fetch url names # out" and "only_prints_at p out"
  shows "reads_once_first m s"
proof -
  from assms(1) have "report m s = Fetch url names # out" by (rule report_eq)
  moreover from assms(2) have "reads out = 0" by (simp add: only_prints_atD)
  ultimately show ?thesis using assms(1) by (simp add: reads_once_first_def reads_def)
qed

lemma prints_as_foundI:
  assumes "effects (snd (m s)) = effects s @ Fetch url names # out"
    and "only_prints_at (precision s) out" and "precision (snd (m s)) = precision s"
  shows "prints_as_found m s"
proof -
  from assms(1) have "report m s = Fetch url names # out" by (rule report_eq)
  with assms(2,3) show ?thesis by (simp add: prints_as_found_def only_prints_atD)
qed

text \<open>A run of the notebook from \<open>s\<close> to \<open>t\<close>: \<open>n\<close> reads, every print at precision 3.\<close>

lemma stage_first:
  "\<exists>out. effects (snd (cell1 L s)) = effects s @ out \<and> list_all (printed_at 3) out \<and> reads out = 1"
proof -
  from cell1_run [of L s] obtain out where "effects (snd (cell1 L s)) = effects s @ Fetch url names # out"
    and "only_prints_at 3 out" by blast
  then have "effects (snd (cell1 L s)) = effects s @ (Fetch url names # out)
     \<and> list_all (printed_at 3) (Fetch url names # out) \<and> reads (Fetch url names # out) = 1"
    using only_prints_atD [of 3 out] by (simp add: reads_def)
  then show ?thesis by blast
qed

lemma stage_next:
  assumes prev: "effects t = effects s @ o1" "list_all (printed_at 3) o1" "reads o1 = n"
    and p: "precision t = 3"
    and run: "\<exists>out. effects (snd (m t)) = effects t @ Fetch url names # out
       \<and> only_prints_at (precision t) out \<and> precision (snd (m t)) = precision t"
  shows "(\<exists>out. effects (snd (m t)) = effects s @ out \<and> list_all (printed_at 3) out
            \<and> reads out = Suc n) \<and> precision (snd (m t)) = 3"
proof -
  from run p obtain o2 where o2: "effects (snd (m t)) = effects t @ Fetch url names # o2"
    "only_prints_at 3 o2" "precision (snd (m t)) = 3" by auto
  let ?out = "o1 @ Fetch url names # o2"
  from prev o2 only_prints_atD [of 3 o2]
  have "effects (snd (m t)) = effects s @ ?out \<and> list_all (printed_at 3) ?out \<and> reads ?out = Suc n"
    by (simp add: reads_def)
  with o2(3) show ?thesis by blast
qed

lemma notebook_run:
  "\<exists>out. effects (snd (notebook L s)) = effects s @ out \<and> list_all (printed_at 3) out
     \<and> (fst (notebook L s) = Inr () \<longrightarrow> reads out = 4)"
proof -
  obtain r1 t1 where c1: "cell1 L s = (r1, t1)" by (cases "cell1 L s")
  from stage_first [of L s] c1 obtain o1 where
    s1: "effects t1 = effects s @ o1" "list_all (printed_at 3) o1" "reads o1 = 1" by auto
  show ?thesis
  proof (cases r1)
    case (Inl e)
    with c1 have "notebook L s = (Inl e, t1)" by (simp add: notebook_def seq_def)
    with s1 show ?thesis by auto
  next
    case (Inr f1)
    with c1 cell1_run [of L s] have p1: "precision t1 = 3" by auto
    obtain r2 t2 where c2: "cell2 L t1 = (r2, t2)" by (cases "cell2 L t1")
    from stage_next [where m = "cell2 L", OF s1 p1 cell2_run [of L t1]] c2 obtain o2 where
      s2: "effects t2 = effects s @ o2" "list_all (printed_at 3) o2" "reads o2 = Suc 1"
      and p2: "precision t2 = 3" by auto
    show ?thesis
    proof (cases r2)
      case (Inl e)
      with c1 c2 \<open>r1 = Inr f1\<close> have "notebook L s = (Inl e, t2)" by (simp add: notebook_def seq_def)
      with s2 show ?thesis by auto
    next
      case (Inr f2)
      obtain r3 t3 where c3: "cell3 L t2 = (r3, t3)" by (cases "cell3 L t2")
      from stage_next [where m = "cell3 L", OF s2 p2 cell3_run [of L t2]] c3 obtain o3 where
        s3: "effects t3 = effects s @ o3" "list_all (printed_at 3) o3" "reads o3 = Suc (Suc 1)"
        and p3: "precision t3 = 3" by auto
      show ?thesis
      proof (cases r3)
        case (Inl e)
        with c1 c2 c3 \<open>r1 = Inr f1\<close> \<open>r2 = Inr f2\<close> have "notebook L s = (Inl e, t3)"
          by (simp add: notebook_def seq_def)
        with s3 show ?thesis by auto
      next
        case (Inr f3)
        obtain r4 t4 where c4: "cell4 L t3 = (r4, t4)" by (cases "cell4 L t3")
        from stage_next [where m = "cell4 L", OF s3 p3 cell4_run [of L t3]] c4 obtain o4 where
          s4: "effects t4 = effects s @ o4" "list_all (printed_at 3) o4"
          "reads o4 = Suc (Suc (Suc 1))" by auto
        from c1 c2 c3 c4 \<open>r1 = Inr f1\<close> \<open>r2 = Inr f2\<close> \<open>r3 = Inr f3\<close>
        have "snd (notebook L s) = t4"
          by (cases r4) (simp_all add: notebook_def seq_def ret_def)
        with s4 show ?thesis by auto
      qed
    qed
  qed
qed

subsection \<open>A cell that completes\<close>

lemma dataset_cases:
  "dataset L = Inr (X, Y) \<longleftrightarrow>
     (\<exists>d. read_csv L url names = Inr d \<and> X = slice_cols (values_df d) 0 8
          \<and> 8 < ncols (values_df d) \<and> Y = map (\<lambda>r. r ! 8) (rows (values_df d)))"
  by (auto simp add: dataset_def column_def Let_def split: sum.splits)

lemma cell1_success:
  assumes "fst (cell1 L s) = Inr f"
  shows "\<exists>X Y g features. dataset L = Inr (X, Y)
     \<and> SelectKBest_fit L \<lparr>score_func = chi2 L, k_best = 4\<rparr> X Y (np_random s) = (Inr f, g)
     \<and> transform f X = Inr features
     \<and> cell1 L s = (Inr f, s\<lparr>precision := 3, np_random := g,
                              effects := effects s @ univariate_report f features\<rparr>)"
  using assms
  by (auto simp add: cell1_def run_defs Let_def dataset_def univariate_report_def
      split: sum.splits prod.splits if_splits)

lemma cell2_success:
  assumes "fst (cell2 L s) = Inr f"
  shows "\<exists>X Y g. dataset L = Inr (X, Y)
     \<and> RFE_fit L \<lparr>estimator = LogisticRegression, n_features_to_select = 3\<rparr> X Y (np_random s)
         = (Inr f, g)
     \<and> cell2 L s = (Inr f, s\<lparr>np_random := g,
                              effects := effects s @ elimination_report (precision s) f\<rparr>)"
  using assms
  by (auto simp add: cell2_def run_defs Let_def dataset_def elimination_report_def
      split: sum.splits prod.splits if_splits)

lemma cell3_success:
  assumes "fst (cell3 L s) = Inr f"
  shows "\<exists>X Y g. dataset L = Inr (X, Y)
     \<and> PCA_fit L \<lparr>n_components = 3\<rparr> X (np_random s) = (Inr f, g)
     \<and> cell3 L s = (Inr f, s\<lparr>np_random := g,
                              effects := effects s @ projection_report (precision s) f\<rparr>)"
  using assms
  by (auto simp add: cell3_def run_defs Let_def dataset_def projection_report_def
      split: sum.splits prod.splits if_splits)

lemma cell4_success:
  assumes "fst (cell4 L s) = Inr f"
  shows "\<exists>X Y g. dataset L = Inr (X, Y)
     \<and> classifier_fit L ExtraTreesClassifier X Y (np_random s) = (Inr f, g)
     \<and> cell4 L s = (Inr f, s\<lparr>np_random := g,
                              effects := effects s @ importance_report (precision s) f\<rparr>)"
  using assms
  by (auto simp add: cell4_def run_defs Let_def dataset_def importance_report_def
      split: sum.splits prod.splits if_splits)

lemma notebook_success:
  assumes "fst (notebook L s) = Inr ()"
  shows "\<exists>f1 t1 f2 t2 f3 t3 f4 t4.
     cell1 L s = (Inr f1, t1) \<and> cell2 L t1 = (Inr f2, t2) \<and> cell3 L t2 = (Inr f3, t3)
     \<and> cell4 L t3 = (Inr f4, t4) \<and> snd (notebook L s) = t4"
  using assms
  by (auto simp add: notebook_def seq_def ret_def split: sum.splits prod.splits)




subsection \<open>The stand-in, evaluated\<close>

lemmas monad_defs = seq_def ret_def pure_def draw_def fetch_def set_printoptions_def print_def

lemmas cell_defs = cell1_def cell2_def cell3_def cell4_def

lemmas array_defs = sample_array_def relabelled_array_def slice_cols_def slice_rows_def slice_def

lemma sample_column: "column sample_array 8 = Inr sample_Y"
  by (simp add: column_def sample_array_def sample_Y_def)

lemma sample_ncols: "ncols sample_X = 8"
  by (simp add: sample_X_def array_defs)

lemma sample_chi2: "stand_in_chi2 sample_X sample_Y = Inr (sample_scores, [])"
  by (simp add: stand_in_chi2_def sample_scores_def sample_X_def array_defs)

lemma sample_transform: "transform sample_kbest sample_X = Inr sample_features"
  by (simp add: sample_kbest_def fitted_kbest_def kbest_transform_def sample_ncols
      sample_features_def)

lemma stand_in_dataset: "dataset stand_in = Inr (sample_X, sample_Y)"
  by (simp add: dataset_def stand_in_def sample_column sample_X_def)

lemma stand_in_cell1:
  "cell1 stand_in s =
     (Inr sample_kbest,
      s\<lparr>precision := 3, effects := effects s @ univariate_report sample_kbest sample_features\<rparr>)"
  by (simp add: cell1_def monad_defs stand_in_def sample_column sample_X_def [symmetric]
      sample_chi2 sample_ncols sample_kbest_def [symmetric] sample_transform
      univariate_report_def)

lemma stand_in_cell2:
  "cell2 stand_in s =
     (Inr sample_rfe, s\<lparr>effects := effects s @ elimination_report (precision s) sample_rfe\<rparr>)"
  by (simp add: cell2_def monad_defs stand_in_def sample_column sample_X_def [symmetric]
      sample_rfe_def elimination_report_def)

lemma stand_in_cell3:
  "cell3 stand_in s =
     (Inr sample_pca, s\<lparr>effects := effects s @ projection_report (precision s) sample_pca\<rparr>)"
  by (simp add: cell3_def monad_defs stand_in_def sample_column sample_X_def [symmetric]
      sample_pca_def projection_report_def)

lemma stand_in_cell4:
  "cell4 stand_in s =
     (Inr (sample_trees (np_random s)),
      s\<lparr>np_random := Suc (np_random s),
        effects := effects s @ importance_report (precision s) (sample_trees (np_random s))\<rparr>)"
  by (simp add: cell4_def monad_defs stand_in_def sample_column sample_X_def [symmetric]
      sample_trees_def importance_report_def)

lemma stand_in_notebook:
  "notebook stand_in (fresh_kernel 0) =
     (Inr (),
      \<lparr>precision = 3, np_random = 1,
       effects = univariate_report sample_kbest sample_features @ elimination_report 3 sample_rfe
         @ projection_report 3 sample_pca @ importance_report 3 (sample_trees 0)\<rparr>)"
  by (simp add: notebook_def seq_def ret_def stand_in_cell1 stand_in_cell2 stand_in_cell3
      stand_in_cell4 fresh_kernel_def)

lemma after_cell1: "after_cell1 = \<lparr>precision = 3, np_random = 0,
     effects = univariate_report sample_kbest sample_features\<rparr>"
  by (simp add: after_cell1_def stand_in_cell1 fresh_kernel_def)

lemma after_cell2: "after_cell2 = \<lparr>precision = 3, np_random = 0,
     effects = univariate_report sample_kbest sample_features @ elimination_report 3 sample_rfe\<rparr>"
  by (simp add: after_cell2_def stand_in_cell2 after_cell1)

text \<open>The numbers.\<close>

lemma sample_scores:
  "sample_scores =
     [7/3, 15842/379, 450/191, 162/61, 2738/131, 38809/18030, 514089/269125, 1089/197]"
  by (simp add: sample_scores_def sample_X_def sample_Y_def columns_of_def array_defs
      chi2_score_def upt_conv_Cons power2_eq_square)

lemma sample_k_highest: "k_highest 4 sample_scores = [1, 3, 4, 7]"
  by (simp add: sample_scores k_highest_def argsort_def upt_conv_Cons)

lemma sample_features_head:
  "slice_rows sample_features 0 5 = \<lparr>ncols = 4, rows =
     [[148, 35, 0, 50], [85, 29, 0, 31], [183, 0, 0, 32], [89, 23, 94, 21], [137, 35, 168, 33]]\<rparr>"
  by (simp add: sample_features_def sample_k_highest take_columns_def sample_X_def array_defs)

lemma sample_weights:
  "map (label_weight sample_Y) (columns_of sample_X) =
     [7/2, 89, 15, 9, 37, 197/20, 717/500, 33/2]"
  by (simp add: sample_X_def sample_Y_def columns_of_def array_defs label_weight_def mean_def
      upt_conv_Cons)

lemma sample_rfe:
  "sample_rfe = \<lparr>n_features' = 3,
     support' = [False, True, False, False, True, False, False, True],
     ranking' = [5, 1, 2, 4, 1, 3, 6, 1]\<rparr>"
  by (simp add: sample_rfe_def fitted_rfe_def sample_weights elimination_ranking_def argsort_def
      Let_def upt_conv_Cons)

lemma sample_trees_0:
  "feature_importances' (sample_trees 0) =
     [875/93371, 44500/93371, 11250/93371, 2250/93371, 18500/93371, 14775/186742,
      717/186742, 8250/93371]"
  by (simp add: sample_trees_def fitted_trees_def sample_weights enumerate_eq_zip Let_def
      upt_conv_Cons)


lemma sample_variances:
  "map variance (columns_of sample_X) =
     [107/10, 21010/15, 2242/15, 4018/15, 76858/15, 10559/200, 4771313/7500000, 2681/30]"
  by (simp add: sample_X_def columns_of_def array_defs variance_def mean_def upt_conv_Cons
      power2_eq_square)

lemma sample_components:
  "components' sample_pca = \<lparr>ncols = 8, rows =
     [[0, 0, 0, 0, 1, 0, 0, 0], [0, 1, 0, 0, 0, 0, 0, 0], [0, 0, 0, 1, 0, 0, 0, 0]]\<rparr>"
  by (simp add: sample_pca_def fitted_pca_def sample_variances argsort_def Let_def sample_ncols
      unit_vector_def upt_conv_Cons)

lemma fresh_kernel_simps:
  "precision (fresh_kernel g) = 8" "np_random (fresh_kernel g) = g" "effects (fresh_kernel g) = []"
  by (simp_all add: fresh_kernel_def)

lemma length_argsort: "length (argsort xs) = length xs"
  by (simp add: argsort_def)

lemma sample_projection:
  "\<exists>features. pca_transform sample_pca sample_X = Inr features \<and> ncols features = 3"
  by (simp add: sample_pca_def fitted_pca_def project_def Let_def length_argsort columns_of_def
      sample_ncols)

section \<open>The claims\<close>

subsection \<open>Repeated invocations\<close>




subsection \<open>The projection and the label column\<close>

text \<open>
  Claim C10. The output of the projection (PCA) cell does not depend on the label
  column: for two datasets \<open>d\<close> and \<open>d'\<close> that both have a label column (column 8) and
  have the same attribute columns 0..7, and the same PCA routine, the cell returns the
  same fitted estimator (components and explained-variance ratios) and leaves the same
  kernel, on every starting kernel.
\<close>

theorem projection_ignores_labels:
  assumes "read_csv L url names = Inr d" and "read_csv L' url names = Inr d'"
    and "PCA_fit L' = PCA_fit L"
    and "slice_cols (values_df d') 0 8 = slice_cols (values_df d) 0 8"
    and "8 < ncols (values_df d)" and "8 < ncols (values_df d')"
  shows "cell3 L' s = cell3 L s"
  using assms by (simp add: cell3_def run_defs)

text \<open>The sample array and the array with every label changed.\<close>

theorem projection_ignores_labels_witness:
  "read_csv stand_in url names = Inr \<lparr>columns = names, values_df = sample_array\<rparr> \<and>
   read_csv relabelled url names = Inr \<lparr>columns = names, values_df = relabelled_array\<rparr> \<and>
   PCA_fit relabelled = PCA_fit stand_in \<and>
   slice_cols relabelled_array 0 8 = slice_cols sample_array 0 8 \<and>
   8 < ncols sample_array \<and> 8 < ncols relabelled_array \<and>
   column relabelled_array 8 \<noteq> column sample_array 8 \<and>
   cell3 relabelled (fresh_kernel 0) = cell3 stand_in (fresh_kernel 0)"
proof -
  have h: "read_csv stand_in url names = Inr \<lparr>columns = names, values_df = sample_array\<rparr>"
    "read_csv relabelled url names = Inr \<lparr>columns = names, values_df = relabelled_array\<rparr>"
    "PCA_fit relabelled = PCA_fit stand_in"
    "slice_cols relabelled_array 0 8 = slice_cols sample_array 0 8"
    "8 < ncols sample_array" "8 < ncols relabelled_array"
    by (simp_all add: stand_in_def relabelled_def array_defs)
  have "column relabelled_array 8 \<noteq> column sample_array 8"
    by (simp add: column_def sample_array_def relabelled_array_def)
  moreover have "cell3 relabelled (fresh_kernel 0) = cell3 stand_in (fresh_kernel 0)"
    using projection_ignores_labels [of stand_in "\<lparr>columns = names, values_df = sample_array\<rparr>"
        relabelled "\<lparr>columns = names, values_df = relabelled_array\<rparr>" "fresh_kernel 0"] h
    by simp
  ultimately show ?thesis using h by simp
qed

subsection \<open>Reads of the dataset, its use, and state shared between cells\<close>

text \<open>
  Claim C7, amended. Each selector cell reads the dataset from the remote source exactly
  once, as the first thing it does, and keeps the effects that were there; so a run of
  the four cells that completes reads it four times, not once. After the read the
  dataset is held read-only and no selector invocation changes it: what \<^verbatim>\<open>fit\<close> receives
  is \<^verbatim>\<open>array[:,0:8]\<close> and \<^verbatim>\<open>array[:,8]\<close> of the array as it was read, and in cell 1 what
  \<^verbatim>\<open>transform\<close> receives after \<^verbatim>\<open>fit\<close> is that same \<^verbatim>\<open>array[:,0:8]\<close>. Mutable state is shared
  across the invocations: every \<^verbatim>\<open>fit\<close> starts from the random state the kernel holds and
  leaves its own, the univariate cell leaves numpy's print precision at 3 when it
  completes, and each of the other three cells prints at the precision it finds and
  leaves it as it is.
\<close>

theorem one_read_per_cell:
  "reads_once_first (cell1 L) s \<and> reads_once_first (cell2 L) s \<and>
   reads_once_first (cell3 L) s \<and> reads_once_first (cell4 L) s \<and>
   (fst (notebook L s) = Inr () \<longrightarrow> reads (report (notebook L) s) = 4) \<and>
   (fst (cell1 L s) = Inr f1 \<longrightarrow>
      (\<exists>X Y features. dataset L = Inr (X, Y)
         \<and> SelectKBest_fit L \<lparr>score_func = chi2 L, k_best = 4\<rparr> X Y (np_random s)
             = (Inr f1, np_random (snd (cell1 L s)))
         \<and> transform f1 X = Inr features
         \<and> report (cell1 L) s = univariate_report f1 features
         \<and> precision (snd (cell1 L s)) = 3)) \<and>
   (fst (cell2 L s) = Inr f2 \<longrightarrow>
      (\<exists>X Y. dataset L = Inr (X, Y)
         \<and> RFE_fit L \<lparr>estimator = LogisticRegression, n_features_to_select = 3\<rparr> X Y (np_random s)
             = (Inr f2, np_random (snd (cell2 L s))))) \<and>
   (fst (cell3 L s) = Inr f3 \<longrightarrow>
      (\<exists>X Y. dataset L = Inr (X, Y)
         \<and> PCA_fit L \<lparr>n_components = 3\<rparr> X (np_random s) = (Inr f3, np_random (snd (cell3 L s))))) \<and>
   (fst (cell4 L s) = Inr f4 \<longrightarrow>
      (\<exists>X Y. dataset L = Inr (X, Y)
         \<and> classifier_fit L ExtraTreesClassifier X Y (np_random s)
             = (Inr f4, np_random (snd (cell4 L s))))) \<and>
   prints_as_found (cell2 L) s \<and> prints_as_found (cell3 L) s \<and> prints_as_found (cell4 L) s"
proof -
  have "reads_once_first (cell1 L) s"
    using cell1_run [of L s] by (blast intro: reads_once_firstI)
  moreover have "reads_once_first (cell2 L) s"
    using cell2_run [of L s] by (blast intro: reads_once_firstI)
  moreover have "reads_once_first (cell3 L) s"
    using cell3_run [of L s] by (blast intro: reads_once_firstI)
  moreover have "reads_once_first (cell4 L) s"
    using cell4_run [of L s] by (blast intro: reads_once_firstI)
  moreover have "fst (notebook L s) = Inr () \<longrightarrow> reads (report (notebook L) s) = 4"
  proof -
    from notebook_run [of L s] obtain out where
      "effects (snd (notebook L s)) = effects s @ out"
      "fst (notebook L s) = Inr () \<longrightarrow> reads out = 4" by blast
    then show ?thesis by (simp add: report_eq)
  qed
  moreover have "\<exists>X Y features. dataset L = Inr (X, Y)
         \<and> SelectKBest_fit L \<lparr>score_func = chi2 L, k_best = 4\<rparr> X Y (np_random s)
             = (Inr f1, np_random (snd (cell1 L s)))
         \<and> transform f1 X = Inr features
         \<and> report (cell1 L) s = univariate_report f1 features
         \<and> precision (snd (cell1 L s)) = 3"
    if "fst (cell1 L s) = Inr f1"
    using cell1_success [OF that] by (auto simp add: report_def)
  moreover have "\<exists>X Y. dataset L = Inr (X, Y)
         \<and> RFE_fit L \<lparr>estimator = LogisticRegression, n_features_to_select = 3\<rparr> X Y (np_random s)
             = (Inr f2, np_random (snd (cell2 L s)))"
    if "fst (cell2 L s) = Inr f2"
    using cell2_success [OF that] by auto
  moreover have "\<exists>X Y. dataset L = Inr (X, Y)
         \<and> PCA_fit L \<lparr>n_components = 3\<rparr> X (np_random s) = (Inr f3, np_random (snd (cell3 L s)))"
    if "fst (cell3 L s) = Inr f3"
    using cell3_success [OF that] by auto
  moreover have "\<exists>X Y. dataset L = Inr (X, Y)
         \<and> classifier_fit L ExtraTreesClassifier X Y (np_random s)
             = (Inr f4, np_random (snd (cell4 L s)))"
    if "fst (cell4 L s) = Inr f4"
    using cell4_success [OF that] by auto
  moreover have "prints_as_found (cell2 L) s"
    using cell2_run [of L s] by (blast intro: prints_as_foundI)
  moreover have "prints_as_found (cell3 L) s"
    using cell3_run [of L s] by (blast intro: prints_as_foundI)
  moreover have "prints_as_found (cell4 L) s"
    using cell4_run [of L s] by (blast intro: prints_as_foundI)
  ultimately show ?thesis by blast
qed

text \<open>
  The stand-in on a fresh kernel: the run completes with four reads; cell 1 fits and
  transforms the attribute matrix of the sample array.
\<close>

theorem one_read_per_cell_witness:
  "fst (notebook stand_in (fresh_kernel 0)) = Inr () \<and>
   reads (report (notebook stand_in) (fresh_kernel 0)) = 4 \<and>
   fst (cell1 stand_in (fresh_kernel 0)) = Inr sample_kbest \<and>
   fst (cell2 stand_in (fresh_kernel 0)) = Inr sample_rfe \<and>
   fst (cell3 stand_in (fresh_kernel 0)) = Inr sample_pca \<and>
   fst (cell4 stand_in (fresh_kernel 0)) = Inr (sample_trees 0) \<and>
   reads (report (cell1 stand_in) (fresh_kernel 0)) = 1 \<and>
   dataset stand_in = Inr (sample_X, sample_Y) \<and>
   SelectKBest_fit stand_in \<lparr>score_func = chi2 stand_in, k_best = 4\<rparr> sample_X sample_Y 0
     = (Inr sample_kbest, 0) \<and>
   transform sample_kbest sample_X = Inr sample_features \<and>
   report (cell1 stand_in) (fresh_kernel 0) = univariate_report sample_kbest sample_features \<and>
   precision (snd (cell1 stand_in (fresh_kernel 0))) = 3 \<and>
   RFE_fit stand_in \<lparr>estimator = LogisticRegression, n_features_to_select = 3\<rparr>
       sample_X sample_Y 0 = (Inr sample_rfe, 0) \<and>
   PCA_fit stand_in \<lparr>n_components = 3\<rparr> sample_X 0 = (Inr sample_pca, 0) \<and>
   classifier_fit stand_in ExtraTreesClassifier sample_X sample_Y 0 = (Inr (sample_trees 0), 1)"
proof -
  have c: "fst (notebook stand_in (fresh_kernel 0)) = Inr ()"
    "fst (cell1 stand_in (fresh_kernel 0)) = Inr sample_kbest"
    "fst (cell2 stand_in (fresh_kernel 0)) = Inr sample_rfe"
    "fst (cell3 stand_in (fresh_kernel 0)) = Inr sample_pca"
    "fst (cell4 stand_in (fresh_kernel 0)) = Inr (sample_trees 0)"
    by (simp_all add: stand_in_notebook stand_in_cell1 stand_in_cell2 stand_in_cell3
        stand_in_cell4 fresh_kernel_simps)
  note t = one_read_per_cell [of stand_in "fresh_kernel 0" sample_kbest sample_rfe sample_pca
      "sample_trees 0"]
  from t c have r: "reads (report (notebook stand_in) (fresh_kernel 0)) = 4"
    "reads (report (cell1 stand_in) (fresh_kernel 0)) = 1"
    by (simp_all add: reads_once_first_def)
  from t c(2) stand_in_dataset sample_transform
  have a: "SelectKBest_fit stand_in \<lparr>score_func = chi2 stand_in, k_best = 4\<rparr> sample_X sample_Y 0
       = (Inr sample_kbest, 0)
     \<and> report (cell1 stand_in) (fresh_kernel 0) = univariate_report sample_kbest sample_features
     \<and> precision (snd (cell1 stand_in (fresh_kernel 0))) = 3"
    by (auto simp add: fresh_kernel_def stand_in_cell1)
  from t c(5) stand_in_dataset
  have b: "classifier_fit stand_in ExtraTreesClassifier sample_X sample_Y 0
       = (Inr (sample_trees 0), 1)"
    by (auto simp add: fresh_kernel_def stand_in_cell4)
  from t c(3) stand_in_dataset
  have e: "RFE_fit stand_in \<lparr>estimator = LogisticRegression, n_features_to_select = 3\<rparr>
       sample_X sample_Y 0 = (Inr sample_rfe, 0)"
    by (auto simp add: fresh_kernel_def stand_in_cell2)
  from t c(4) stand_in_dataset
  have f: "PCA_fit stand_in \<lparr>n_components = 3\<rparr> sample_X 0 = (Inr sample_pca, 0)"
    by (auto simp add: fresh_kernel_def stand_in_cell3)
  from c r a b e f stand_in_dataset sample_transform show ?thesis by simp
qed

text \<open>
  Claim C7 as stated fails: the run of the notebook reads the dataset four times, and
  the report of the projection cell after the univariate cell differs from its report
  on a fresh kernel, because the print precision is shared.
\<close>

theorem read_once_counterexample:
  "fst (notebook stand_in (fresh_kernel 0)) = Inr () \<and>
   reads (effects (snd (notebook stand_in (fresh_kernel 0)))) = 4 \<and>
   reads (effects (snd (notebook stand_in (fresh_kernel 0)))) \<noteq> 1 \<and>
   report (cell3 stand_in) after_cell1 = projection_report 3 sample_pca \<and>
   report (cell3 stand_in) (fresh_kernel 0) = projection_report 8 sample_pca \<and>
   report (cell3 stand_in) after_cell1 \<noteq> report (cell3 stand_in) (fresh_kernel 0)"
  by (simp add: stand_in_notebook stand_in_cell3 after_cell1 fresh_kernel_simps report_def
      reads_def univariate_report_def elimination_report_def projection_report_def
      importance_report_def)

subsection \<open>The console reports\<close>

lemma notebook_report:
  assumes "fst (notebook L s) = Inr ()"
  shows "\<exists>f1 features f2 f3 f4.
     report (notebook L) s =
       univariate_report f1 features @ elimination_report 3 f2
         @ projection_report 3 f3 @ importance_report 3 f4"
proof -
  from notebook_success [OF assms] obtain f1 t1 f2 t2 f3 t3 f4 t4 where
    c: "cell1 L s = (Inr f1, t1)" "cell2 L t1 = (Inr f2, t2)" "cell3 L t2 = (Inr f3, t3)"
      "cell4 L t3 = (Inr f4, t4)" and n: "snd (notebook L s) = t4" by blast
  from c(1) cell1_success [of L s f1] obtain features where
    t1: "precision t1 = 3" "effects t1 = effects s @ univariate_report f1 features" by auto
  from c(2) cell2_success [of L t1 f2] t1 have
    t2: "precision t2 = 3"
      "effects t2 = effects s @ univariate_report f1 features @ elimination_report 3 f2" by auto
  from c(3) cell3_success [of L t2 f3] t2 have
    t3: "precision t3 = 3"
      "effects t3 = effects s @ univariate_report f1 features @ elimination_report 3 f2
         @ projection_report 3 f3" by auto
  from c(4) cell4_success [of L t3 f4] t3 have
    "effects t4 = effects s @ univariate_report f1 features @ elimination_report 3 f2
         @ projection_report 3 f3 @ importance_report 3 f4" by auto
  with n have "report (notebook L) s = univariate_report f1 features @ elimination_report 3 f2
         @ projection_report 3 f3 @ importance_report 3 f4"
    by (simp add: report_eq)
  then show ?thesis by blast
qed

text \<open>
  Claim C8, amended. In a run of the notebook in the order of the document every
  \<^verbatim>\<open>print\<close> happens at print precision 3, which the univariate cell sets before its first
  \<^verbatim>\<open>print\<close>; a run that completes writes the four reports below, in this order, at
  precision 3. The report of the univariate cell is the score array and then the first 5
  rows of the transformed matrix. The report of the elimination cell is the number of
  features, the support mask and the ranking array, each after its label. The report of
  the projection cell is the explained-variance ratios after their label and then the
  component matrix \<^verbatim>\<open>components_\<close>; it is not a sample of transformed rows. The report of the
  extra-trees cell is the importance array. The last three cells set no precision: they
  print at the precision they find and leave it as it is.
\<close>

theorem console_reports:
  "effects (snd (notebook L s)) = effects s @ report (notebook L) s \<and>
   list_all (printed_at 3) (report (notebook L) s) \<and>
   (fst (notebook L s) = Inr () \<longrightarrow>
      (\<exists>f1 features f2 f3 f4.
         report (notebook L) s =
           univariate_report f1 features @ elimination_report 3 f2
             @ projection_report 3 f3 @ importance_report 3 f4)) \<and>
   (fst (cell1 L s) = Inr f1 \<longrightarrow>
      (\<exists>X Y features. dataset L = Inr (X, Y) \<and> transform f1 X = Inr features
         \<and> report (cell1 L) s = univariate_report f1 features)) \<and>
   (fst (cell2 L s) = Inr f2 \<longrightarrow> report (cell2 L) s = elimination_report (precision s) f2) \<and>
   (fst (cell3 L s) = Inr f3 \<longrightarrow> report (cell3 L) s = projection_report (precision s) f3) \<and>
   (fst (cell4 L s) = Inr f4 \<longrightarrow> report (cell4 L) s = importance_report (precision s) f4) \<and>
   prints_as_found (cell2 L) s \<and> prints_as_found (cell3 L) s \<and> prints_as_found (cell4 L) s"
proof -
  from notebook_run [of L s] obtain out where
    o: "effects (snd (notebook L s)) = effects s @ out" "list_all (printed_at 3) out" by blast
  then have "report (notebook L) s = out" by (simp add: report_eq)
  with o have n: "effects (snd (notebook L s)) = effects s @ report (notebook L) s"
    "list_all (printed_at 3) (report (notebook L) s)" by simp_all
  have c1: "\<exists>X Y features. dataset L = Inr (X, Y) \<and> transform f1 X = Inr features
         \<and> report (cell1 L) s = univariate_report f1 features"
    if "fst (cell1 L s) = Inr f1"
    using cell1_success [OF that] by (auto simp add: report_def)
  have c2: "report (cell2 L) s = elimination_report (precision s) f2"
    if "fst (cell2 L s) = Inr f2"
    using cell2_success [OF that] by (auto simp add: report_def)
  have c3: "report (cell3 L) s = projection_report (precision s) f3"
    if "fst (cell3 L s) = Inr f3"
    using cell3_success [OF that] by (auto simp add: report_def)
  have c4: "report (cell4 L) s = importance_report (precision s) f4"
    if "fst (cell4 L s) = Inr f4"
    using cell4_success [OF that] by (auto simp add: report_def)
  have p: "prints_as_found (cell2 L) s" "prints_as_found (cell3 L) s"
    "prints_as_found (cell4 L) s"
    using cell2_run [of L s] cell3_run [of L s] cell4_run [of L s]
    by (blast intro: prints_as_foundI)+
  from n notebook_report [of L s] c1 c2 c3 c4 p show ?thesis by blast
qed

text \<open>
  The stand-in: the run from a fresh kernel, and each cell on the kernel it finds in
  that run; the extra-trees cell also on a fresh kernel, where it prints at precision 8.
\<close>

theorem console_reports_witness:
  "fst (notebook stand_in (fresh_kernel 0)) = Inr () \<and>
   fst (cell1 stand_in (fresh_kernel 0)) = Inr sample_kbest \<and>
   fst (cell2 stand_in after_cell1) = Inr sample_rfe \<and>
   fst (cell3 stand_in after_cell2) = Inr sample_pca \<and>
   fst (cell4 stand_in (fresh_kernel 0)) = Inr (sample_trees 0) \<and>
   report (notebook stand_in) (fresh_kernel 0) =
     univariate_report sample_kbest sample_features @ elimination_report 3 sample_rfe
       @ projection_report 3 sample_pca @ importance_report 3 (sample_trees 0) \<and>
   list_all (printed_at 3) (report (notebook stand_in) (fresh_kernel 0)) \<and>
   report (cell1 stand_in) (fresh_kernel 0) =
     [Fetch url names,
      Print 3 [FloatArray [7/3, 15842/379, 450/191, 162/61, 2738/131, 38809/18030,
                           514089/269125, 1089/197]],
      Print 3 [FloatMatrix \<lparr>ncols = 4, rows =
        [[148, 35, 0, 50], [85, 29, 0, 31], [183, 0, 0, 32], [89, 23, 94, 21],
         [137, 35, 168, 33]]\<rparr>]] \<and>
   report (cell2 stand_in) after_cell1 =
     [Fetch url names,
      Print 3 [StrVal ''Num Features: %d'', IntVal 3],
      Print 3 [StrVal ''Selected Features: %s'',
               BoolArray [False, True, False, False, True, False, False, True]],
      Print 3 [StrVal ''Feature Ranking: %s'', IntArray [5, 1, 2, 4, 1, 3, 6, 1]]] \<and>
   report (cell3 stand_in) after_cell2 = projection_report 3 sample_pca \<and>
   report (cell4 stand_in) (fresh_kernel 0) =
     [Fetch url names,
      Print 8 [FloatArray [875/93371, 44500/93371, 11250/93371, 2250/93371, 18500/93371,
                           14775/186742, 717/186742, 8250/93371]]]"
proof -
  have c: "fst (notebook stand_in (fresh_kernel 0)) = Inr ()"
    "fst (cell1 stand_in (fresh_kernel 0)) = Inr sample_kbest"
    "fst (cell2 stand_in after_cell1) = Inr sample_rfe"
    "fst (cell3 stand_in after_cell2) = Inr sample_pca"
    "fst (cell4 stand_in (fresh_kernel 0)) = Inr (sample_trees 0)"
    by (simp_all add: stand_in_notebook stand_in_cell1 stand_in_cell2 stand_in_cell3
        stand_in_cell4 fresh_kernel_simps)
  have p: "precision after_cell1 = 3" "precision after_cell2 = 3"
    "precision (fresh_kernel 0 :: (real, nat) kernel) = 8"
    by (simp_all add: after_cell1 after_cell2 fresh_kernel_def)
  have n: "report (notebook stand_in) (fresh_kernel 0) =
     univariate_report sample_kbest sample_features @ elimination_report 3 sample_rfe
       @ projection_report 3 sample_pca @ importance_report 3 (sample_trees 0)"
    by (simp add: stand_in_notebook report_def fresh_kernel_simps)
  from console_reports [of stand_in "fresh_kernel 0" sample_kbest _ _ "sample_trees 0"] c
    stand_in_dataset sample_transform
  have a: "list_all (printed_at 3) (report (notebook stand_in) (fresh_kernel 0))"
    "report (cell1 stand_in) (fresh_kernel 0) = univariate_report sample_kbest sample_features"
    "report (cell4 stand_in) (fresh_kernel 0) = importance_report 8 (sample_trees 0)"
    by (auto simp add: p)
  from console_reports [of stand_in after_cell1 _ sample_rfe] c p
  have b: "report (cell2 stand_in) after_cell1 = elimination_report 3 sample_rfe" by simp
  from console_reports [of stand_in after_cell2 _ _ sample_pca] c p
  have d: "report (cell3 stand_in) after_cell2 = projection_report 3 sample_pca" by simp
  have s: "scores' sample_kbest = sample_scores"
    by (simp add: sample_kbest_def fitted_kbest_def)
  have rf: "n_features' sample_rfe = 3"
    "support' sample_rfe = [False, True, False, False, True, False, False, True]"
    "ranking' sample_rfe = [5, 1, 2, 4, 1, 3, 6, 1]"
    by (simp_all add: sample_rfe)
  from c n a b d show ?thesis
    by (simp add: univariate_report_def elimination_report_def importance_report_def
        s sample_scores sample_features_head rf sample_trees_0)
qed

text \<open>
  Claim C8 as stated fails: in the run of the notebook the report of the projection cell
  holds the component matrix (3 rows of 8 loadings), and no \<^verbatim>\<open>print\<close> of it was given the
  first 5 rows of the transformed matrix.
\<close>

theorem projection_sample_counterexample:
  "fst (cell3 stand_in after_cell2) = Inr sample_pca \<and>
   report (cell3 stand_in) after_cell2 =
     [Fetch url names,
      Print 3 [StrVal ''Explained Variance: %s'', FloatArray (explained_variance_ratio' sample_pca)],
      Print 3 [FloatMatrix \<lparr>ncols = 8, rows =
        [[0, 0, 0, 0, 1, 0, 0, 0], [0, 1, 0, 0, 0, 0, 0, 0], [0, 0, 0, 1, 0, 0, 0, 0]]\<rparr>]] \<and>
   \<not> report_has_sample (pca_transform sample_pca) sample_X (report (cell3 stand_in) after_cell2)"
proof -
  have r: "report (cell3 stand_in) after_cell2 = projection_report 3 sample_pca"
    by (simp add: stand_in_cell3 after_cell2 report_def)
  from sample_projection obtain features where
    f: "pca_transform sample_pca sample_X = Inr features" "ncols features = 3" by blast
  then have "ncols (slice_rows features 0 5) \<noteq> ncols (components' sample_pca)"
    by (simp add: slice_rows_def sample_components)
  then have "slice_rows features 0 5 \<noteq> components' sample_pca" by auto
  with f have "\<not> report_has_sample (pca_transform sample_pca) sample_X
       (report (cell3 stand_in) after_cell2)"
    by (simp add: r report_has_sample_def projection_report_def)
  with r show ?thesis
    by (simp add: stand_in_cell3 projection_report_def sample_components)
qed

end
